theory Spec2Isabelle
  imports Complex_Main "HOL-Library.Char_ord" "HOL-Library.List_Lexorder" "HOL-Library.Multiset"
    "HOL-Library.Product_Lexorder"
begin

section \<open>The persistent store\<close>

text \<open>
  The program keeps everything in one SQLite file with three tables. A row of
  \<open>expenses\<close> has the columns \<open>id, date, category, amount, description\<close>; the column
  \<open>created_at\<close> is written by the engine and read by no statement of the program, so it is
  left out, as are \<open>updated_at\<close> of \<open>budget\<close> and \<open>id, created_at\<close> of \<open>categories\<close>.
  Text is a list of characters, compared as SQLite's BINARY collation does (lexicographic,
  character by character). An amount is a Python \<open>float\<close> stored in a REAL column: a
  finite double, given here by the real number it denotes. What the program and the engine
  compute from amounts is computed in double precision (next section).
\<close>

record expense =
  row_id :: nat
  date :: string
  category :: string
  amount :: real
  description :: string

record tables =
  expenses_tbl :: "expense list"
  budget_tbl :: "(nat \<times> real) list"
  categories_tbl :: "string list"

text \<open>
  The process state: the tables of the database file and the lines printed to the console.
\<close>

record state =
  db :: tables
  printed :: "string list"

text \<open>
  The errors the backend raises while a statement is carried out are subclasses of
  \<open>sqlite3.Error\<close>; the text is what \<open>str(e)\<close> gives.
\<close>

datatype sqlite_error = OperationalError string | IntegrityError string

fun message :: "sqlite_error \<Rightarrow> string" where
  "message (OperationalError m) = m"
| "message (IntegrityError m) = m"

datatype py_error = IndexError | OverflowError | ZeroDivisionError

text \<open>
  A statement together with its bound parameters is modelled by what the engine does with
  it on given tables: a SELECT yields rows or raises, any other statement yields the new
  tables or raises.
\<close>

type_synonym 'r select = "tables \<Rightarrow> sqlite_error + 'r list"
type_synonym update = "tables \<Rightarrow> sqlite_error + tables"

text \<open>
  The body of the \<open>try\<close> block of \<open>execute_query\<close> and \<open>execute_update\<close>: connect, execute,
  fetch or commit, close. The first argument is the failure of the backend that does not
  depend on the tables (the file cannot be opened, the disk fails, the database is
  locked): \<open>None\<close> when the backend works.
\<close>

definition run_select :: "sqlite_error option \<Rightarrow> 'r select \<Rightarrow> tables \<Rightarrow> sqlite_error + 'r list" where
  "run_select fault q t = (case fault of Some e \<Rightarrow> Inl e | None \<Rightarrow> q t)"

definition run_update :: "sqlite_error option \<Rightarrow> update \<Rightarrow> tables \<Rightarrow> sqlite_error + tables" where
  "run_update fault u t = (case fault of Some e \<Rightarrow> Inl e | None \<Rightarrow> u t)"

definition print_line :: "string \<Rightarrow> state \<Rightarrow> state" where
  "print_line l s = s\<lparr>printed := printed s @ [l]\<rparr>"

definition execute_query :: "sqlite_error option \<Rightarrow> 'r select \<Rightarrow> state \<Rightarrow> 'r list \<times> state" where
  "execute_query fault q s =
     (case run_select fault q (db s) of
        Inr results \<Rightarrow> (results, s)
      | Inl e \<Rightarrow> ([], print_line (''Database query error: '' @ message e) s))"

definition execute_update :: "sqlite_error option \<Rightarrow> update \<Rightarrow> state \<Rightarrow> bool \<times> state" where
  "execute_update fault u s =
     (case run_update fault u (db s) of
        Inr t \<Rightarrow> (True, s\<lparr>db := t\<rparr>)
      | Inl e \<Rightarrow> (False, print_line (''Database update error: '' @ message e) s))"

section \<open>Double-precision arithmetic\<close>

text \<open>
  Python's \<open>float\<close> and SQLite's REAL are IEEE 754 doubles. A double is a finite value,
  an infinity or not-a-number; a finite value is given by the real number it denotes, so
  the two zeros are one value.
\<close>

datatype double = Finite real | PosInf | NegInf | NaN

instantiation double :: zero
begin

definition zero_double_def: "0 = Finite 0"

instance ..

end

text \<open>
  Rounding to the nearest integer, a tie going to the even one.
\<close>

definition round_half_even :: "real \<Rightarrow> int" where
  "round_half_even x =
     (let n = \<lfloor>x\<rfloor>; r = x - of_int n
      in if r < 1 / 2 then n else if 1 / 2 < r then n + 1 else if even n then n else n + 1)"

text \<open>
  The doubles around \<open>x\<close> are the multiples of \<open>2 powi e\<close>, where \<open>e\<close> is the exponent
  with \<open>2 powi (e + 52) \<le> \<bar>x\<bar> < 2 powi (e + 53)\<close> (the significand has 53 bits), and
  \<open>e = - 1074\<close> for every smaller \<open>x\<close> (the subnormal numbers). The exponent is searched
  from 0, downwards for \<open>\<bar>x\<bar> < 2 ^ 53\<close> and upwards otherwise; the largest one is 971.
\<close>

function down :: "int \<Rightarrow> real \<Rightarrow> int" where
  "down e x = (if e \<le> - 1074 \<or> 2 powi (e + 52) \<le> x then e else down (e - 1) x)"
  by pat_completeness auto
termination
  by (relation "measure (\<lambda>(e, x). nat (e + 1074))") auto

function up :: "int \<Rightarrow> real \<Rightarrow> int" where
  "up e x = (if 971 \<le> e \<or> x < 2 powi (e + 53) then e else up (e + 1) x)"
  by pat_completeness auto
termination
  by (relation "measure (\<lambda>(e, x). nat (971 - e))") auto

declare down.simps [simp del] up.simps [simp del]

definition quantum :: "real \<Rightarrow> int" where
  "quantum x = (if \<bar>x\<bar> < 2 ^ 53 then down 0 \<bar>x\<bar> else up 0 \<bar>x\<bar>)"

definition nearest :: "real \<Rightarrow> real" where
  "nearest x = of_int (round_half_even (x / 2 powi quantum x)) * 2 powi quantum x"

text \<open>
  The double an operation returns for the exact result \<open>x\<close>: the nearest one, and an
  infinity when that is beyond the largest finite double.
\<close>

definition to_double :: "real \<Rightarrow> double" where
  "to_double x =
     (if 2 ^ 1024 \<le> nearest x then PosInf
      else if nearest x \<le> - (2 ^ 1024) then NegInf
      else Finite (nearest x))"

fun double_neg :: "double \<Rightarrow> double" where
  "double_neg (Finite x) = Finite (- x)"
| "double_neg PosInf = NegInf"
| "double_neg NegInf = PosInf"
| "double_neg NaN = NaN"

fun double_abs :: "double \<Rightarrow> double" where
  "double_abs (Finite x) = Finite \<bar>x\<bar>"
| "double_abs PosInf = PosInf"
| "double_abs NegInf = PosInf"
| "double_abs NaN = NaN"

fun double_add :: "double \<Rightarrow> double \<Rightarrow> double" where
  "double_add (Finite x) (Finite y) = to_double (x + y)"
| "double_add NaN b = NaN"
| "double_add a NaN = NaN"
| "double_add PosInf NegInf = NaN"
| "double_add NegInf PosInf = NaN"
| "double_add PosInf b = PosInf"
| "double_add a PosInf = PosInf"
| "double_add NegInf b = NegInf"
| "double_add a NegInf = NegInf"

definition double_sub :: "double \<Rightarrow> double \<Rightarrow> double" where
  "double_sub a b = double_add a (double_neg b)"

fun double_mul :: "double \<Rightarrow> double \<Rightarrow> double" where
  "double_mul (Finite x) (Finite y) = to_double (x * y)"
| "double_mul NaN b = NaN"
| "double_mul a NaN = NaN"
| "double_mul (Finite x) b =
     (if x = 0 then NaN else if (0 < x) = (b = PosInf) then PosInf else NegInf)"
| "double_mul a (Finite y) =
     (if y = 0 then NaN else if (0 < y) = (a = PosInf) then PosInf else NegInf)"
| "double_mul a b = (if a = b then PosInf else NegInf)"

text \<open>
  \<open>a / b\<close> on Python floats raises \<open>ZeroDivisionError\<close> when \<open>b\<close> is zero, whatever
  \<open>a\<close> is.
\<close>

fun double_div :: "double \<Rightarrow> double \<Rightarrow> py_error + double" where
  "double_div a (Finite y) =
     (if y = 0 then Inl ZeroDivisionError
      else Inr (case a of
                  Finite x \<Rightarrow> to_double (x / y)
                | PosInf \<Rightarrow> if 0 < y then PosInf else NegInf
                | NegInf \<Rightarrow> if 0 < y then NegInf else PosInf
                | NaN \<Rightarrow> NaN))"
| "double_div NaN b = Inr NaN"
| "double_div a NaN = Inr NaN"
| "double_div (Finite x) b = Inr (Finite 0)"
| "double_div a b = Inr NaN"

text \<open>\<open>a < b\<close> on doubles: false whenever one of them is not-a-number.\<close>

fun double_less :: "double \<Rightarrow> double \<Rightarrow> bool" where
  "double_less (Finite x) (Finite y) = (x < y)"
| "double_less NaN b = False"
| "double_less a NaN = False"
| "double_less PosInf b = False"
| "double_less a PosInf = True"
| "double_less NegInf b = (b \<noteq> NegInf)"
| "double_less a NegInf = False"

text \<open>
  The order of REAL values under \<open>ORDER BY\<close>. Not-a-number is no value of the engine
  (it is stored as NULL, which sorts first).
\<close>

fun sort_rank :: "double \<Rightarrow> int \<times> real" where
  "sort_rank NaN = (0, 0)"
| "sort_rank NegInf = (1, 0)"
| "sort_rank (Finite x) = (2, x)"
| "sort_rank PosInf = (3, 0)"

text \<open>
  \<open>SUM\<close> over REAL values, as SQLite computes it (\<open>sumStep\<close> and \<open>sumFinalize\<close> in
  \<open>func.c\<close>, from release 3.44 on): a running sum \<open>rSum\<close> and the error term \<open>rErr\<close> of
  the Kahan-Babuska-Neumaier summation, both starting at 0, the values taken in the order
  of the rows; the result is \<open>rSum + rErr\<close>, or \<open>rSum\<close> alone when the error term has
  overflowed.
\<close>

record sum_ctx =
  rSum :: double
  rErr :: double

definition kahanBabuskaStep :: "sum_ctx \<Rightarrow> double \<Rightarrow> sum_ctx" where
  "kahanBabuskaStep p r =
     (let s = rSum p; t = double_add s r
      in \<lparr>rSum = t,
          rErr = double_add (rErr p)
                   (if double_less (double_abs r) (double_abs s)
                    then double_add (double_sub s t) r
                    else double_add (double_sub r t) s)\<rparr>)"

definition is_overflow :: "double \<Rightarrow> bool" where
  "is_overflow a = (case a of Finite x \<Rightarrow> False | _ \<Rightarrow> True)"

definition sql_sum :: "real list \<Rightarrow> double" where
  "sql_sum vs =
     (let p = foldl kahanBabuskaStep \<lparr>rSum = 0, rErr = 0\<rparr> (map Finite vs)
      in if is_overflow (rErr p) then rSum p else double_add (rSum p) (rErr p))"

section \<open>The statements the program issues\<close>

text \<open>
  \<open>ORDER BY date DESC\<close> on the rows of a table and \<open>ORDER BY total DESC\<close> on the groups of
  \<open>GROUP BY\<close>. SQL leaves the order of rows with equal keys open; they are taken here as
  SQLite returns them: rows of a table in the order of the table, groups in the reverse of
  the order \<open>GROUP BY\<close> produced them in.
\<close>

definition order_desc :: "('a \<Rightarrow> 'k::linorder) \<Rightarrow> 'a list \<Rightarrow> 'a list" where
  "order_desc key rows = rev (sort_key key (rev rows))"

definition order_groups_desc :: "('a \<Rightarrow> 'k::linorder) \<Rightarrow> 'a list \<Rightarrow> 'a list" where
  "order_groups_desc key rows = rev (sort_key key rows)"

text \<open>
  The LIKE operator of SQLite: \<open>%\<close> matches any run of characters, \<open>_\<close> exactly one,
  and any other character matches itself, ASCII letters without regard to case.
\<close>

definition upper :: "char \<Rightarrow> char" where
  "upper c = (if (97::nat) \<le> of_char c \<and> of_char c \<le> (122::nat)
              then char_of (of_char c - (32::nat)) else c)"

fun like :: "string \<Rightarrow> string \<Rightarrow> bool" where
  "like [] [] = True"
| "like [] (c # cs) = False"
| "like (p # ps) [] = (p = CHR ''%'' \<and> like ps [])"
| "like (p # ps) (c # cs) =
     (if p = CHR ''%'' then like ps (c # cs) \<or> like (p # ps) cs
      else (p = CHR ''_'' \<or> upper p = upper c) \<and> like ps cs)"

text \<open>The conditions \<open>get_expenses\<close> appends to \<open>WHERE 1=1\<close>, each with its parameter.\<close>

datatype clause =
    DateGe string
  | DateLe string
  | CategoryEq string
  | AmountGe real
  | AmountLe real
  | DescriptionLike string

fun holds :: "clause \<Rightarrow> expense \<Rightarrow> bool" where
  "holds (DateGe v) e = (v \<le> date e)"
| "holds (DateLe v) e = (date e \<le> v)"
| "holds (CategoryEq v) e = (category e = v)"
| "holds (AmountGe v) e = (v \<le> amount e)"
| "holds (AmountLe v) e = (amount e \<le> v)"
| "holds (DescriptionLike v) e = like v (description e)"

type_synonym expense_row = "nat \<times> string \<times> string \<times> real \<times> string"

definition row_of :: "expense \<Rightarrow> expense_row" where
  "row_of e = (row_id e, date e, category e, amount e, description e)"

text \<open>\<open>SELECT id, date, category, amount, description FROM expenses WHERE 1=1 ... ORDER BY date DESC\<close>\<close>

definition select_expenses :: "clause list \<Rightarrow> expense_row select" where
  "select_expenses cls t =
     Inr (map row_of (order_desc date (filter (\<lambda>e. list_all (\<lambda>c. holds c e) cls) (expenses_tbl t))))"

text \<open>
  \<open>INSERT INTO expenses (date, category, amount, description) VALUES (?, ?, ?, ?)\<close>.
  The key is AUTOINCREMENT: one more than the largest key used so far. No statement of the
  program deletes a row, so that is the largest key in the table.
\<close>

definition next_row_id :: "expense list \<Rightarrow> nat" where
  "next_row_id rows = Suc (foldr max (map row_id rows) 0)"

definition insert_expense :: "string \<Rightarrow> string \<Rightarrow> real \<Rightarrow> string \<Rightarrow> update" where
  "insert_expense d c a descr t =
     Inr (t\<lparr>expenses_tbl := expenses_tbl t @
            [\<lparr>row_id = next_row_id (expenses_tbl t), date = d, category = c,
              amount = a, description = descr\<rparr>]\<rparr>)"

text \<open>
  \<open>SUM(amount)\<close> over the rows chosen: one row with one column, which is NULL (\<open>None\<close>)
  when no row is chosen.
\<close>

definition sum_amount :: "expense list \<Rightarrow> double option list" where
  "sum_amount rows = [if rows = [] then None else Some (sql_sum (map amount rows))]"

definition between :: "string \<Rightarrow> string \<Rightarrow> expense \<Rightarrow> bool" where
  "between lo hi e = (lo \<le> date e \<and> date e \<le> hi)"

text \<open>\<open>SELECT SUM(amount) FROM expenses WHERE date BETWEEN ? AND ?\<close>\<close>

definition select_sum_between :: "string \<Rightarrow> string \<Rightarrow> double option select" where
  "select_sum_between lo hi t = Inr (sum_amount (filter (between lo hi) (expenses_tbl t)))"

text \<open>\<open>SELECT SUM(amount) FROM expenses\<close>\<close>

definition select_sum_all :: "double option select" where
  "select_sum_all t = Inr (sum_amount (expenses_tbl t))"

text \<open>
  \<open>SELECT category, SUM(amount) as total FROM expenses ... GROUP BY category ORDER BY total DESC\<close>:
  one group for each category among the rows chosen, in the order of the categories, with
  the sum over its rows.
\<close>

definition group_by_category :: "expense list \<Rightarrow> (string \<times> double) list" where
  "group_by_category rows =
     map (\<lambda>c. (c, sql_sum (map amount (filter (\<lambda>e. category e = c) rows))))
       (sort (remdups (map category rows)))"

definition select_categories_between :: "string \<Rightarrow> string \<Rightarrow> (string \<times> double) select" where
  "select_categories_between lo hi t =
     Inr (order_groups_desc (\<lambda>g. sort_rank (snd g))
            (group_by_category (filter (between lo hi) (expenses_tbl t))))"

definition select_categories_all :: "(string \<times> double) select" where
  "select_categories_all t =
     Inr (order_groups_desc (\<lambda>g. sort_rank (snd g)) (group_by_category (expenses_tbl t)))"

text \<open>\<open>SELECT name FROM categories ORDER BY name\<close>\<close>

definition select_category_names :: "string select" where
  "select_category_names t = Inr (sort (categories_tbl t))"

text \<open>
  \<open>INSERT INTO categories (name) VALUES (?)\<close>: the column is UNIQUE, so the engine
  raises when the name is in the table.
\<close>

definition insert_category :: "string \<Rightarrow> update" where
  "insert_category name t =
     (if name \<in> set (categories_tbl t)
      then Inl (IntegrityError ''UNIQUE constraint failed: categories.name'')
      else Inr (t\<lparr>categories_tbl := categories_tbl t @ [name]\<rparr>))"

text \<open>\<open>INSERT OR IGNORE INTO categories (name) VALUES (?)\<close>\<close>

definition insert_or_ignore_category :: "string \<Rightarrow> tables \<Rightarrow> tables" where
  "insert_or_ignore_category name t =
     (if name \<in> set (categories_tbl t) then t
      else t\<lparr>categories_tbl := categories_tbl t @ [name]\<rparr>)"

text \<open>\<open>SELECT id FROM budget WHERE id = 1\<close> and \<open>SELECT monthly_budget FROM budget WHERE id = 1\<close>\<close>

definition select_budget_id :: "nat select" where
  "select_budget_id t = Inr (map fst (filter (\<lambda>r. fst r = 1) (budget_tbl t)))"

definition select_monthly_budget :: "real select" where
  "select_monthly_budget t = Inr (map snd (filter (\<lambda>r. fst r = 1) (budget_tbl t)))"

text \<open>\<open>UPDATE budget SET monthly_budget = ?, updated_at = CURRENT_TIMESTAMP WHERE id = 1\<close>\<close>

definition update_budget :: "real \<Rightarrow> update" where
  "update_budget a t =
     Inr (t\<lparr>budget_tbl := map (\<lambda>r. if fst r = 1 then (fst r, a) else r) (budget_tbl t)\<rparr>)"

text \<open>
  \<open>INSERT INTO budget (id, monthly_budget) VALUES (1, ?)\<close>: \<open>id\<close> is the primary key, so
  the engine raises when a row with key 1 is in the table.
\<close>

definition insert_budget :: "real \<Rightarrow> update" where
  "insert_budget a t =
     (if 1 \<in> set (map fst (budget_tbl t))
      then Inl (IntegrityError ''UNIQUE constraint failed: budget.id'')
      else Inr (t\<lparr>budget_tbl := budget_tbl t @ [(1, a)]\<rparr>))"

section \<open>DatabaseManager.init_database\<close>

definition default_categories :: "string list" where
  "default_categories =
     [''Food'', ''Travel'', ''Rent'', ''Shopping'', ''Utilities'', ''Healthcare'', ''Entertainment'']"

definition seed_categories :: update where
  "seed_categories t = Inr (foldl (\<lambda>t' c. insert_or_ignore_category c t') t default_categories)"

definition init_database :: "sqlite_error option \<Rightarrow> state \<Rightarrow> state" where
  "init_database fault s =
     (case run_update fault seed_categories (db s) of
        Inr t \<Rightarrow> s\<lparr>db := t\<rparr>
      | Inl e \<Rightarrow> print_line (''Database error: '' @ message e) s)"

text \<open>A database file that does not exist yet: the tables are created empty.\<close>

definition new_file :: state where
  "new_file = \<lparr>db = \<lparr>expenses_tbl = [], budget_tbl = [], categories_tbl = []\<rparr>, printed = []\<rparr>"

section \<open>Calendar dates\<close>

text \<open>
  \<open>datetime.date\<close> of the standard library: year, month and day in the proleptic
  Gregorian calendar. \<open>toordinal\<close> counts days from 0001-01-01 (which is day 1),
  \<open>weekday\<close> is 0 on Monday and 6 on Sunday, and \<open>d - timedelta(days=k)\<close> is the date
  \<open>k\<close> days before \<open>d\<close>, with \<open>OverflowError\<close> before year 1.
\<close>

record calendar_date =
  year :: int
  month :: int
  day :: int

definition is_leap :: "int \<Rightarrow> bool" where
  "is_leap y = (y mod 4 = 0 \<and> (y mod 100 \<noteq> 0 \<or> y mod 400 = 0))"

definition days_in_month :: "int \<Rightarrow> int \<Rightarrow> int" where
  "days_in_month y m =
     (if m = 2 then (if is_leap y then 29 else 28)
      else if m = 4 \<or> m = 6 \<or> m = 9 \<or> m = 11 then 30 else 31)"

definition valid_date :: "calendar_date \<Rightarrow> bool" where
  "valid_date d =
     (1 \<le> year d \<and> year d \<le> 9999 \<and> 1 \<le> month d \<and> month d \<le> 12 \<and>
      1 \<le> day d \<and> day d \<le> days_in_month (year d) (month d))"

definition days_before_year :: "int \<Rightarrow> int" where
  "days_before_year y = (y - 1) * 365 + (y - 1) div 4 - (y - 1) div 100 + (y - 1) div 400"

definition days_before_month :: "int \<Rightarrow> int \<Rightarrow> int" where
  "days_before_month y m =
     [0, 0, 31, 59, 90, 120, 151, 181, 212, 243, 273, 304, 334] ! nat m
       + (if 2 < m \<and> is_leap y then 1 else 0)"

definition toordinal :: "calendar_date \<Rightarrow> int" where
  "toordinal d = days_before_year (year d) + days_before_month (year d) (month d) + day d"

definition weekday :: "calendar_date \<Rightarrow> int" where
  "weekday d = (toordinal d + 6) mod 7"

definition previous_day :: "calendar_date \<Rightarrow> calendar_date" where
  "previous_day d =
     (if 1 < day d then d\<lparr>day := day d - 1\<rparr>
      else if 1 < month d
        then d\<lparr>month := month d - 1, day := days_in_month (year d) (month d - 1)\<rparr>
      else \<lparr>year = year d - 1, month = 12, day = 31\<rparr>)"

definition minus_days :: "calendar_date \<Rightarrow> int \<Rightarrow> py_error + calendar_date" where
  "minus_days d k =
     (if toordinal d - k < 1 then Inl OverflowError else Inr ((previous_day ^^ nat k) d))"

text \<open>
  \<open>strftime('%Y-%m-%d')\<close>: month and day in two digits with a leading zero, the year in
  as many digits as it has (the C library does not pad \<open>%Y\<close>; a year from 1000 on has
  four).
\<close>

definition digit :: "int \<Rightarrow> char" where
  "digit n = ''0123456789'' ! nat (n mod 10)"

definition year_digits :: "int \<Rightarrow> string" where
  "year_digits y =
     (if y < 10 then [digit y]
      else if y < 100 then [digit (y div 10), digit y]
      else if y < 1000 then [digit (y div 100), digit (y div 10), digit y]
      else [digit (y div 1000), digit (y div 100), digit (y div 10), digit y])"

definition strftime :: "calendar_date \<Rightarrow> string" where
  "strftime d =
     year_digits (year d) @
     [CHR ''-'', digit (month d div 10), digit (month d),
      CHR ''-'', digit (day d div 10), digit (day d)]"

section \<open>ExpenseManager\<close>

text \<open>
  Python's truth test on an optional string: \<open>None\<close> and the empty string are false.
\<close>

definition given :: "string option \<Rightarrow> bool" where
  "given v = (case v of None \<Rightarrow> False | Some t \<Rightarrow> t \<noteq> [])"

definition add_expense ::
  "sqlite_error option \<Rightarrow> string \<Rightarrow> string \<Rightarrow> real \<Rightarrow> string \<Rightarrow> state \<Rightarrow> bool \<times> state" where
  "add_expense fault d c a descr s = execute_update fault (insert_expense d c a descr) s"

definition get_expenses ::
  "sqlite_error option \<Rightarrow> string option \<Rightarrow> string option \<Rightarrow> string option \<Rightarrow>
     real option \<Rightarrow> real option \<Rightarrow> string option \<Rightarrow> state \<Rightarrow> expense_row list \<times> state" where
  "get_expenses fault sd ed cat min_amount max_amount keyword s =
     execute_query fault
       (select_expenses
          ((if given sd then [DateGe (the sd)] else []) @
           (if given ed then [DateLe (the ed)] else []) @
           (if given cat then [CategoryEq (the cat)] else []) @
           (case min_amount of None \<Rightarrow> [] | Some v \<Rightarrow> [AmountGe v]) @
           (case max_amount of None \<Rightarrow> [] | Some v \<Rightarrow> [AmountLe v]) @
           (if given keyword then [DescriptionLike (''%'' @ the keyword @ ''%'')] else [])))
       s"

record summary =
  total_amount :: double
  category_breakdown :: "(string \<times> double) list"
  period :: string
  start_date :: "string option"
  end_date :: "string option"

text \<open>The window of a period: the \<open>if\<close>/\<open>elif\<close> chain at the head of \<open>get_expense_summary\<close>.\<close>

definition period_window ::
  "calendar_date \<Rightarrow> string \<Rightarrow> py_error + (string option \<times> string option)" where
  "period_window today p =
     (if p = ''daily'' then Inr (Some (strftime today), Some (strftime today))
      else if p = ''weekly'' then
        (case minus_days today (weekday today) of
           Inl err \<Rightarrow> Inl err
         | Inr monday \<Rightarrow> Inr (Some (strftime monday), Some (strftime today)))
      else if p = ''monthly'' then
        Inr (Some (strftime (today\<lparr>day := 1\<rparr>)), Some (strftime today))
      else if p = ''yearly'' then
        Inr (Some (strftime (today\<lparr>month := 1, day := 1\<rparr>)), Some (strftime today))
      else Inr (None, None))"

text \<open>
  \<open>x[0][0] if x[0][0] else 0.0\<close> on the rows of a SUM query: indexing the empty sequence
  raises, and NULL and 0.0 are both false.
\<close>

definition first_or_zero :: "double option list \<Rightarrow> py_error + double" where
  "first_or_zero rows =
     (case rows of
        [] \<Rightarrow> Inl IndexError
      | v # _ \<Rightarrow> Inr (case v of None \<Rightarrow> 0 | Some r \<Rightarrow> if r \<noteq> 0 then r else 0))"

text \<open>
  The two statements \<open>get_expense_summary\<close> chooses between under
  \<open>if start_date and end_date\<close>, for the total and for the breakdown.
\<close>

definition total_query :: "string option \<Rightarrow> string option \<Rightarrow> double option select" where
  "total_query sd ed =
     (if given sd \<and> given ed then select_sum_between (the sd) (the ed) else select_sum_all)"

definition category_query :: "string option \<Rightarrow> string option \<Rightarrow> (string \<times> double) select" where
  "category_query sd ed =
     (if given sd \<and> given ed then select_categories_between (the sd) (the ed)
      else select_categories_all)"

definition get_expense_summary ::
  "sqlite_error option \<Rightarrow> sqlite_error option \<Rightarrow> calendar_date \<Rightarrow> string \<Rightarrow> state \<Rightarrow>
     (py_error + summary) \<times> state" where
  "get_expense_summary fault1 fault2 today p s =
     (case period_window today p of
        Inl err \<Rightarrow> (Inl err, s)
      | Inr (sd, ed) \<Rightarrow>
          let (total_result, s1) = execute_query fault1 (total_query sd ed) s
          in (case first_or_zero total_result of
                Inl err \<Rightarrow> (Inl err, s1)
              | Inr tot \<Rightarrow>
                  let (category_result, s2) = execute_query fault2 (category_query sd ed) s1
                  in (Inr \<lparr>total_amount = tot, category_breakdown = category_result,
                           period = p, start_date = sd, end_date = ed\<rparr>, s2)))"

section \<open>CategoryManager\<close>

definition get_categories :: "sqlite_error option \<Rightarrow> state \<Rightarrow> string list \<times> state" where
  "get_categories fault s = execute_query fault select_category_names s"

definition add_category :: "sqlite_error option \<Rightarrow> string \<Rightarrow> state \<Rightarrow> bool \<times> state" where
  "add_category fault name s = execute_update fault (insert_category name) s"

section \<open>BudgetManager\<close>

definition set_monthly_budget ::
  "sqlite_error option \<Rightarrow> sqlite_error option \<Rightarrow> real \<Rightarrow> state \<Rightarrow> bool \<times> state" where
  "set_monthly_budget fault1 fault2 a s =
     (let (found, s1) = execute_query fault1 select_budget_id s
      in if found \<noteq> [] then execute_update fault2 (update_budget a) s1
         else execute_update fault2 (insert_budget a) s1)"

definition get_monthly_budget :: "sqlite_error option \<Rightarrow> state \<Rightarrow> real option \<times> state" where
  "get_monthly_budget fault s =
     (let (result, s1) = execute_query fault select_monthly_budget s
      in (case result of [] \<Rightarrow> None | v # _ \<Rightarrow> Some v, s1))"

record status =
  budget :: "real option"
  spent :: double
  remaining :: double
  percentage :: double

text \<open>
  \<open>(spent / budget * 100) if budget > 0 else 0\<close>, the last entry of the dictionary
  \<open>get_budget_status\<close> returns.
\<close>

definition percentage_of :: "double \<Rightarrow> real \<Rightarrow> py_error + double" where
  "percentage_of sp b =
     (if b > 0
      then (case double_div sp (Finite b) of
              Inl err \<Rightarrow> Inl err
            | Inr q \<Rightarrow> Inr (double_mul q (Finite 100)))
      else Inr 0)"

definition get_budget_status ::
  "sqlite_error option \<Rightarrow> sqlite_error option \<Rightarrow> calendar_date \<Rightarrow> state \<Rightarrow>
     (py_error + status) \<times> state" where
  "get_budget_status fault1 fault2 today s =
     (let (b, s1) = get_monthly_budget fault1 s
      in if b = None \<or> b = Some 0
         then (Inr \<lparr>budget = None, spent = 0, remaining = 0, percentage = 0\<rparr>, s1)
         else
           let month_start = strftime (today\<lparr>day := 1\<rparr>);
               month_end = strftime today;
               (spent_result, s2) =
                  execute_query fault2 (select_sum_between month_start month_end) s1
           in (case first_or_zero spent_result of
                 Inl err \<Rightarrow> (Inl err, s2)
               | Inr sp \<Rightarrow>
                   (case percentage_of sp (the b) of
                      Inl err \<Rightarrow> (Inl err, s2)
                    | Inr pct \<Rightarrow>
                        (Inr \<lparr>budget = b, spent = sp,
                              remaining = double_sub (Finite (the b)) sp,
                              percentage = pct\<rparr>, s2))))"

section \<open>Derived quantities and example states\<close>

text \<open>
  The spend of the current month: the sum, as the engine computes it, of the amounts of the
  expenses dated from the first of the month to today, both inclusive, dates compared as
  text.
\<close>

definition month_spend :: "calendar_date \<Rightarrow> tables \<Rightarrow> double" where
  "month_spend today t =
     sql_sum (map amount
       (filter (between (strftime (today\<lparr>day := 1\<rparr>)) (strftime today)) (expenses_tbl t)))"

definition budget_100 :: state where
  "budget_100 = snd (set_monthly_budget None None 100 (init_database None new_file))"

definition spent_80 :: state where
  "spent_80 = snd (add_expense None ''2026-11-03'' ''Food'' 30 ''dinner''
                (snd (add_expense None ''2026-10-31'' ''Travel'' 45 ''train''
                  (snd (add_expense None ''2026-11-01'' ''Rent'' 50 ''garage'' budget_100)))))"

definition spent_120 :: state where
  "spent_120 = snd (add_expense None ''2026-11-04'' ''Shopping'' 40 ''shoes'' spent_80)"

text \<open>A sequence of \<open>set_monthly_budget\<close> calls, each with what the backend does on its two statements.\<close>

fun set_budgets ::
  "(sqlite_error option \<times> sqlite_error option \<times> real) list \<Rightarrow> state \<Rightarrow> state" where
  "set_budgets [] s = s"
| "set_budgets ((fault1, fault2, a) # calls) s =
     set_budgets calls (snd (set_monthly_budget fault1 fault2 a s))"

text \<open>The budget table holds no row, or the one row with key 1.\<close>

definition singleton_budget :: "tables \<Rightarrow> bool" where
  "singleton_budget t = (length (budget_tbl t) \<le> 1 \<and> list_all (\<lambda>r. fst r = 1) (budget_tbl t))"

text \<open>A returned row carries the four fields of an expense, whatever its key.\<close>

definition same_fields :: "string \<Rightarrow> string \<Rightarrow> real \<Rightarrow> string \<Rightarrow> expense_row \<Rightarrow> bool" where
  "same_fields d c a descr row = (snd row = (d, c, a, descr))"

definition coffee_twice :: state where
  "coffee_twice =
     snd (add_expense None ''2026-11-04'' ''Food'' 4 ''coffee''
       (snd (add_expense None ''2026-11-04'' ''Food'' 4 ''coffee''
         (init_database None new_file))))"




section \<open>Fail-soft store operations\<close>

text \<open>
  C8. Whenever the backend raises an error \<open>e\<close> for a statement, \<open>execute_query\<close> prints
  one line naming the error and returns the empty sequence, and \<open>execute_update\<close> prints
  one line and returns false; both return normally and leave the tables as they were.
\<close>

theorem store_fails_soft:
  "(run_select fault q (db s) = Inl e \<longrightarrow>
      execute_query fault q s =
        ([], s\<lparr>printed := printed s @ [''Database query error: '' @ message e]\<rparr>)) \<and>
   (run_update fault u (db s) = Inl e \<longrightarrow>
      execute_update fault u s =
        (False, s\<lparr>printed := printed s @ [''Database update error: '' @ message e]\<rparr>))"
  by (simp add: execute_query_def execute_update_def print_line_def)

theorem store_fails_soft_witness:
  "execute_query (Some (OperationalError ''unable to open database file''))
     select_category_names new_file =
     ([], new_file\<lparr>printed := [''Database query error: unable to open database file'']\<rparr>) \<and>
   execute_update (Some (OperationalError ''unable to open database file''))
     (insert_category ''Food'') new_file =
     (False, new_file\<lparr>printed := [''Database update error: unable to open database file'']\<rparr>)"
  using store_fails_soft [of "Some (OperationalError ''unable to open database file'')"
      select_category_names new_file "OperationalError ''unable to open database file''"
      "insert_category ''Food''"]
  by (simp add: run_select_def run_update_def new_file_def)

section \<open>Facts about double-precision arithmetic\<close>

lemma round_half_even_int: "round_half_even (of_int n) = n"
  by (simp add: round_half_even_def)

lemma down_le: "down e x \<le> e"
proof (induction e x rule: down.induct)
  case (1 e x)
  show ?case
  proof (cases "e \<le> - 1074 \<or> 2 powi (e + 52) \<le> x")
    case True
    then show ?thesis by (simp add: down.simps)
  next
    case False
    then have "down e x = down (e - 1) x" by (subst down.simps) simp
    with 1 [OF False] show ?thesis by simp
  qed
qed

lemma nearest_zero: "nearest 0 = 0"
  by (simp add: nearest_def round_half_even_def)

lemma nearest_scaled:
  assumes "q \<le> 0"
  shows "of_int (round_half_even (of_int n / 2 powi q)) * 2 powi q = (of_int n :: real)"
proof -
  have p: "(2::real) powi q = 1 / 2 ^ nat (- q)"
    using assms by (simp add: power_int_def field_simps)
  have "of_int n / 2 powi q = (of_int (n * 2 ^ nat (- q)) :: real)"
    by (simp add: p)
  then have "round_half_even (of_int n / 2 powi q) = n * 2 ^ nat (- q)"
    by (simp only: round_half_even_int)
  then show ?thesis by (simp add: p)
qed

lemma nearest_int:
  assumes "\<bar>n\<bar> \<le> 2 ^ 53"
  shows "nearest (of_int n) = of_int n"
proof (cases "\<bar>n\<bar> < 2 ^ 53")
  case True
  then have "\<bar>of_int n :: real\<bar> < 2 ^ 53"
    by (metis of_int_abs of_int_less_numeral_power_cancel_iff)
  then have "quantum (of_int n) = down 0 \<bar>of_int n\<bar>" by (simp add: quantum_def)
  then have "quantum (of_int n) \<le> 0" using down_le [of 0 "\<bar>of_int n\<bar>"] by simp
  then show ?thesis unfolding nearest_def by (rule nearest_scaled)
next
  case False
  with assms have "\<bar>n\<bar> = 2 ^ 53" by simp
  then consider "n = 2 ^ 53" | "n = - (2 ^ 53)" by (auto simp add: abs_if split: if_splits)
  then show ?thesis
  proof cases
    case 1
    have "nearest (2 ^ 53) = 2 ^ 53"
      by (simp add: nearest_def quantum_def up.simps round_half_even_def)
    with 1 show ?thesis by simp
  next
    case 2
    have "nearest (- (2 ^ 53)) = - (2 ^ 53)"
      by (simp add: nearest_def quantum_def up.simps round_half_even_def)
    with 2 show ?thesis by simp
  qed
qed

lemma to_double_int:
  assumes "\<bar>n\<bar> \<le> 2 ^ 53"
  shows "to_double (of_int n) = Finite (of_int n)"
proof -
  have "\<bar>of_int n :: real\<bar> \<le> 2 ^ 53"
    using assms by (metis of_int_abs of_int_le_numeral_power_cancel_iff)
  moreover have "(2::real) ^ 53 < 2 ^ 1024" by simp
  ultimately have "(of_int n :: real) < 2 ^ 1024" and "- (2 ^ 1024) < (of_int n :: real)"
    by linarith+
  then show ?thesis by (simp add: to_double_def nearest_int [OF assms])
qed

lemma to_double_zero: "to_double 0 = Finite 0"
  using to_double_int [of 0] by simp

lemma to_double_numeral:
  "(numeral k :: int) \<le> 2 ^ 53 \<Longrightarrow> to_double (numeral k) = Finite (numeral k)"
  using to_double_int [of "numeral k"] by simp

lemma to_double_neg_numeral:
  "(numeral k :: int) \<le> 2 ^ 53 \<Longrightarrow> to_double (- numeral k) = Finite (- numeral k)"
  using to_double_int [of "- numeral k"] by simp

lemma sql_sum_empty: "sql_sum [] = 0"
  by (simp add: sql_sum_def is_overflow_def zero_double_def to_double_zero)

section \<open>Budget status\<close>

lemma execute_query_ok:
  "execute_query None q s =
     (case q (db s) of
        Inr rows \<Rightarrow> (rows, s)
      | Inl e \<Rightarrow> ([], print_line (''Database query error: '' @ message e) s))"
  by (simp add: execute_query_def run_select_def)

lemma execute_query_fault:
  "execute_query (Some e) q s = ([], print_line (''Database query error: '' @ message e) s)"
  by (simp add: execute_query_def run_select_def)

text \<open>
  C10. When \<open>get_monthly_budget\<close> reads the value 0, \<open>get_budget_status\<close> takes the branch
  of \<open>not budget\<close> and returns the same dictionary as for an unset budget: budget absent,
  spent, remaining and percentage 0. The spend query is not issued: the result is the
  same whatever the backend would do on it, and the state is the one
  \<open>get_monthly_budget\<close> left.
\<close>

theorem zero_budget_reads_as_unset:
  "get_monthly_budget fault1 s = (b, s1) \<Longrightarrow> b = Some 0 \<or> b = None \<Longrightarrow>
     get_budget_status fault1 fault2 today s =
       (Inr \<lparr>budget = None, spent = 0, remaining = 0, percentage = 0\<rparr>, s1)"
  by (auto simp add: get_budget_status_def)

theorem zero_budget_reads_as_unset_witness:
  "get_monthly_budget None (snd (set_monthly_budget None None 0 new_file)) =
      (Some 0, snd (set_monthly_budget None None 0 new_file)) \<and>
   get_budget_status None (Some (OperationalError ''disk I/O error''))
      \<lparr>year = 2026, month = 11, day = 4\<rparr> (snd (set_monthly_budget None None 0 new_file)) =
      (Inr \<lparr>budget = None, spent = 0, remaining = 0, percentage = 0\<rparr>,
       snd (set_monthly_budget None None 0 new_file))"
proof -
  have h: "get_monthly_budget None (snd (set_monthly_budget None None 0 new_file)) =
      (Some 0, snd (set_monthly_budget None None 0 new_file))"
    by (simp add: get_monthly_budget_def set_monthly_budget_def execute_query_def
        execute_update_def run_select_def run_update_def select_budget_id_def
        select_monthly_budget_def insert_budget_def new_file_def)
  show ?thesis
    using h zero_budget_reads_as_unset [OF h] by simp
qed

lemma first_or_zero_sum: "first_or_zero (sum_amount rows) = Inr (sql_sum (map amount rows))"
  by (simp add: first_or_zero_def sum_amount_def sql_sum_empty)

lemma percentage_of_positive:
  "0 < b \<Longrightarrow> \<exists>q. double_div sp (Finite b) = Inr q \<and>
     percentage_of sp b = Inr (double_mul q (Finite 100))"
  by (simp add: percentage_of_def)

lemma percentage_of_returns: "\<exists>pct. percentage_of sp b = Inr pct"
  by (simp add: percentage_of_def)

lemma get_monthly_budget_state: "snd (get_monthly_budget None s) = s"
  by (simp add: get_monthly_budget_def execute_query_ok select_monthly_budget_def)

lemmas nearest_steps = nearest_def quantum_def down.simps up.simps round_half_even_def

lemma quotient_80: "double_mul (to_double (80 / 100)) (Finite 100) = Finite 80"
proof -
  have "nearest (4 / 5) = 3602879701896397 / 4503599627370496"
    by (simp add: nearest_steps)
  then have a: "to_double (4 / 5) = Finite (3602879701896397 / 4503599627370496)"
    by (simp add: to_double_def)
  have "nearest (90071992547409925 / 1125899906842624) = 80"
    by (simp add: nearest_steps)
  then have "to_double (90071992547409925 / 1125899906842624) = Finite 80"
    by (simp add: to_double_def)
  with a show ?thesis by simp
qed

lemma quotient_120: "double_mul (to_double (120 / 100)) (Finite 100) = Finite 120"
proof -
  have "nearest (6 / 5) = 5404319552844595 / 4503599627370496"
    by (simp add: nearest_steps)
  then have a: "to_double (6 / 5) = Finite (5404319552844595 / 4503599627370496)"
    by (simp add: to_double_def)
  have "nearest (135107988821114875 / 1125899906842624) = 120"
    by (simp add: nearest_steps)
  then have "to_double (135107988821114875 / 1125899906842624) = Finite 120"
    by (simp add: to_double_def)
  with a show ?thesis by simp
qed

lemma budget_status_value:
  assumes "get_monthly_budget None s = (Some b, s)" and "0 < b"
  shows "get_budget_status None None today s =
           (case double_div (month_spend today (db s)) (Finite b) of
              Inl err \<Rightarrow> (Inl err, s)
            | Inr q \<Rightarrow>
                (Inr \<lparr>budget = Some b, spent = month_spend today (db s),
                      remaining = double_sub (Finite b) (month_spend today (db s)),
                      percentage = double_mul q (Finite 100)\<rparr>, s))"
  using assms(2)
  by (simp add: get_budget_status_def assms(1) execute_query_ok select_sum_between_def
      first_or_zero_sum month_spend_def percentage_of_def Let_def)

text \<open>
  C5. With a stored budget \<open>b\<close> and the spend of the current month (the sum the engine
  returns), \<open>get_budget_status\<close> returns, for \<open>b > 0\<close>, the budget \<open>b\<close>, the spend,
  remaining \<open>b - spend\<close> and percentage \<open>spend / b * 100\<close>, where \<open>-\<close>, \<open>/\<close> and \<open>*\<close>
  are the operations of Python floats: the division returns a quotient (it does not
  raise), and for a finite spend \<open>x\<close> the remaining is the double nearest to \<open>b - x\<close> and
  the quotient the double nearest to \<open>x / b\<close>. For \<open>b \<le> 0\<close> the percentage is 0. With
  budget 100 and spend 80 the remaining is 20 and the percentage 80; with spend 120 the
  remaining is -20 and the percentage 120.
\<close>

theorem budget_status_figures:
  assumes "fst (get_monthly_budget None s) = Some b"
  shows "(0 < b \<longrightarrow>
           (\<exists>q. double_div (month_spend today (db s)) (Finite b) = Inr q \<and>
                get_budget_status None None today s =
                  (Inr \<lparr>budget = Some b, spent = month_spend today (db s),
                        remaining = double_sub (Finite b) (month_spend today (db s)),
                        percentage = double_mul q (Finite 100)\<rparr>, s))) \<and>
         (0 < b \<and> month_spend today (db s) = Finite x \<longrightarrow>
            get_budget_status None None today s =
              (Inr \<lparr>budget = Some b, spent = Finite x, remaining = to_double (b - x),
                    percentage = double_mul (to_double (x / b)) (Finite 100)\<rparr>, s)) \<and>
         (b \<le> 0 \<longrightarrow>
           (\<exists>r. get_budget_status None None today s = (Inr r, s) \<and> percentage r = 0)) \<and>
         (b = 100 \<and> month_spend today (db s) = Finite 80 \<longrightarrow>
            get_budget_status None None today s =
              (Inr \<lparr>budget = Some 100, spent = Finite 80, remaining = Finite 20,
                    percentage = Finite 80\<rparr>, s)) \<and>
         (b = 100 \<and> month_spend today (db s) = Finite 120 \<longrightarrow>
            get_budget_status None None today s =
              (Inr \<lparr>budget = Some 100, spent = Finite 120, remaining = Finite (- 20),
                    percentage = Finite 120\<rparr>, s))"
proof -
  have g: "get_monthly_budget None s = (Some b, s)"
    using assms get_monthly_budget_state [of s] by (cases "get_monthly_budget None s") simp
  have a: "0 < b \<longrightarrow>
           (\<exists>q. double_div (month_spend today (db s)) (Finite b) = Inr q \<and>
                get_budget_status None None today s =
                  (Inr \<lparr>budget = Some b, spent = month_spend today (db s),
                        remaining = double_sub (Finite b) (month_spend today (db s)),
                        percentage = double_mul q (Finite 100)\<rparr>, s))"
    by (simp add: budget_status_value [OF g])
  have b: "0 < b \<and> month_spend today (db s) = Finite x \<longrightarrow>
            get_budget_status None None today s =
              (Inr \<lparr>budget = Some b, spent = Finite x, remaining = to_double (b - x),
                    percentage = double_mul (to_double (x / b)) (Finite 100)\<rparr>, s)"
    by (simp add: budget_status_value [OF g] double_sub_def)
  have c: "b \<le> 0 \<longrightarrow>
           (\<exists>r. get_budget_status None None today s = (Inr r, s) \<and> percentage r = 0)"
    by (simp add: get_budget_status_def g execute_query_ok select_sum_between_def
        first_or_zero_sum percentage_of_def Let_def)
  have d: "b = 100 \<and> month_spend today (db s) = Finite 80 \<longrightarrow>
            get_budget_status None None today s =
              (Inr \<lparr>budget = Some 100, spent = Finite 80, remaining = Finite 20,
                    percentage = Finite 80\<rparr>, s)"
  proof (intro impI, elim conjE)
    assume h: "b = 100" "month_spend today (db s) = Finite 80"
    have "to_double (100 - 80) = Finite 20" by (simp add: to_double_numeral)
    with h quotient_80 show "get_budget_status None None today s =
              (Inr \<lparr>budget = Some 100, spent = Finite 80, remaining = Finite 20,
                    percentage = Finite 80\<rparr>, s)"
      using budget_status_value [OF g, of today] by (simp add: double_sub_def)
  qed
  have e: "b = 100 \<and> month_spend today (db s) = Finite 120 \<longrightarrow>
            get_budget_status None None today s =
              (Inr \<lparr>budget = Some 100, spent = Finite 120, remaining = Finite (- 20),
                    percentage = Finite 120\<rparr>, s)"
  proof (intro impI, elim conjE)
    assume h: "b = 100" "month_spend today (db s) = Finite 120"
    have "to_double (100 - 120) = Finite (- 20)" by (simp add: to_double_neg_numeral)
    with h quotient_120 show "get_budget_status None None today s =
              (Inr \<lparr>budget = Some 100, spent = Finite 120, remaining = Finite (- 20),
                    percentage = Finite 120\<rparr>, s)"
      using budget_status_value [OF g, of today] by (simp add: double_sub_def)
  qed
  from a b c d e show ?thesis by (intro conjI)
qed

lemma spent_80_tables:
  "db spent_80 = \<lparr>expenses_tbl =
      [\<lparr>row_id = 1, date = ''2026-11-01'', category = ''Rent'', amount = 50,
         description = ''garage''\<rparr>,
       \<lparr>row_id = 2, date = ''2026-10-31'', category = ''Travel'', amount = 45,
         description = ''train''\<rparr>,
       \<lparr>row_id = 3, date = ''2026-11-03'', category = ''Food'', amount = 30,
         description = ''dinner''\<rparr>],
     budget_tbl = [(1, 100)], categories_tbl = default_categories\<rparr>"
  by (simp add: spent_80_def budget_100_def add_expense_def set_monthly_budget_def
      init_database_def execute_query_def execute_update_def run_select_def run_update_def
      select_budget_id_def insert_budget_def insert_expense_def next_row_id_def
      seed_categories_def insert_or_ignore_category_def default_categories_def new_file_def)

lemma spent_120_tables:
  "db spent_120 = (db spent_80)\<lparr>expenses_tbl := expenses_tbl (db spent_80) @
      [\<lparr>row_id = 4, date = ''2026-11-04'', category = ''Shopping'', amount = 40,
         description = ''shoes''\<rparr>]\<rparr>"
  by (simp add: spent_120_def add_expense_def execute_update_def run_update_def
      insert_expense_def next_row_id_def spent_80_tables)

lemmas sum_steps =
  sql_sum_def kahanBabuskaStep_def is_overflow_def zero_double_def double_sub_def
  to_double_numeral to_double_neg_numeral to_double_zero

theorem budget_status_figures_witness:
  "get_budget_status None None \<lparr>year = 2026, month = 11, day = 4\<rparr> spent_80 =
     (Inr \<lparr>budget = Some 100, spent = Finite 80, remaining = Finite 20,
           percentage = Finite 80\<rparr>, spent_80) \<and>
   get_budget_status None None \<lparr>year = 2026, month = 11, day = 4\<rparr> spent_120 =
     (Inr \<lparr>budget = Some 100, spent = Finite 120, remaining = Finite (- 20),
           percentage = Finite 120\<rparr>, spent_120)"
proof -
  have b80: "fst (get_monthly_budget None spent_80) = Some 100"
    by (simp add: get_monthly_budget_def execute_query_ok select_monthly_budget_def
        spent_80_tables)
  have b120: "fst (get_monthly_budget None spent_120) = Some 100"
    by (simp add: get_monthly_budget_def execute_query_ok select_monthly_budget_def
        spent_120_tables spent_80_tables)
  have m80: "month_spend \<lparr>year = 2026, month = 11, day = 4\<rparr> (db spent_80) = Finite 80"
    by (simp add: month_spend_def spent_80_tables strftime_def year_digits_def digit_def
        between_def sum_steps)
  have m120: "month_spend \<lparr>year = 2026, month = 11, day = 4\<rparr> (db spent_120) = Finite 120"
    by (simp add: month_spend_def spent_120_tables spent_80_tables strftime_def
        year_digits_def digit_def between_def sum_steps)
  show ?thesis
    using budget_status_figures [OF b80, of "\<lparr>year = 2026, month = 11, day = 4\<rparr>"]
      budget_status_figures [OF b120, of "\<lparr>year = 2026, month = 11, day = 4\<rparr>"]
      m80 m120
    by blast
qed

section \<open>Calendar facts\<close>

lemma month_cases:
  "1 \<le> (m::int) \<Longrightarrow> m \<le> 12 \<Longrightarrow>
   m = 1 \<or> m = 2 \<or> m = 3 \<or> m = 4 \<or> m = 5 \<or> m = 6 \<or>
   m = 7 \<or> m = 8 \<or> m = 9 \<or> m = 10 \<or> m = 11 \<or> m = 12"
  by arith

lemma days_before_month_nonneg: "1 \<le> m \<Longrightarrow> m \<le> 12 \<Longrightarrow> 0 \<le> days_before_month y m"
  using month_cases [of m] by (auto simp add: days_before_month_def)

lemma days_before_year_nonneg: "1 \<le> y \<Longrightarrow> 0 \<le> days_before_year y"
proof -
  assume "1 \<le> y"
  then have y: "0 \<le> y - 1" by simp
  then have a: "0 \<le> (y - 1) div 4" and b: "(y - 1) div 100 \<le> (y - 1) div 4"
    and c: "0 \<le> (y - 1) div 400"
    by (simp_all add: zdiv_mono2)
  have "0 \<le> (y - 1) * 365" using y by simp
  with a b c show ?thesis unfolding days_before_year_def by linarith
qed

lemma toordinal_pos: "valid_date d \<Longrightarrow> 1 \<le> toordinal d"
  using days_before_month_nonneg [of "month d" "year d"] days_before_year_nonneg [of "year d"]
  by (simp add: valid_date_def toordinal_def)


lemma mod7_le: "1 \<le> (n::int) \<Longrightarrow> (n + 6) mod 7 \<le> n - 1"
  by presburger

lemma weekday_le: "valid_date d \<Longrightarrow> weekday d \<le> toordinal d - 1"
  using toordinal_pos [of d] mod7_le [of "toordinal d"] by (simp add: weekday_def)

lemma minus_weekday_ok:
  "valid_date d \<Longrightarrow> minus_days d (weekday d) = Inr ((previous_day ^^ nat (weekday d)) d)"
  using weekday_le [of d] by (simp add: minus_days_def)

lemma period_window_ok:
  "valid_date today \<Longrightarrow> \<exists>sd ed. period_window today p = Inr (sd, ed)"
  by (simp add: period_window_def minus_weekday_ok)

lemma valid_2026_11_04: "valid_date \<lparr>year = 2026, month = 11, day = 4\<rparr>"
  by (simp add: valid_date_def days_in_month_def)

section \<open>Indexing the first row of an aggregate\<close>

lemma total_query_rows: "\<exists>v. total_query sd ed t = Inr [v]"
  by (simp add: total_query_def select_sum_between_def select_sum_all_def sum_amount_def)

lemma total_query_fault_iff:
  "fst (execute_query fault (total_query sd ed) s) = [] \<longleftrightarrow> fault \<noteq> None"
proof (cases fault)
  case None
  obtain v where "total_query sd ed (db s) = Inr [v]" using total_query_rows by blast
  with None show ?thesis by (simp add: execute_query_ok)
next
  case (Some e)
  then show ?thesis by (simp add: execute_query_fault)
qed

lemma sum_between_fault_iff:
  "fst (execute_query fault (select_sum_between lo hi) s) = [] \<longleftrightarrow> fault \<noteq> None"
  by (cases fault) (simp_all add: execute_query_ok execute_query_fault select_sum_between_def
      sum_amount_def)

lemma summary_fault:
  assumes "period_window today p = Inr (sd, ed)"
  shows "fst (get_expense_summary (Some e) fault2 today p s) = Inl IndexError"
  by (simp add: get_expense_summary_def assms execute_query_fault first_or_zero_def)

lemma summary_no_fault:
  assumes "period_window today p = Inr (sd, ed)"
  shows "\<exists>r. fst (get_expense_summary None fault2 today p s) = Inr r"
proof -
  obtain v where v: "total_query sd ed (db s) = Inr [v]"
    using total_query_rows by blast
  show ?thesis
    by (simp add: get_expense_summary_def assms execute_query_ok v first_or_zero_def split_beta)
qed

lemma status_fault:
  assumes "get_monthly_budget fault0 s = (Some b, s1)" and "b \<noteq> 0"
  shows "fst (get_budget_status fault0 (Some e) today s) = Inl IndexError"
  using assms(2)
  by (simp add: get_budget_status_def assms(1) execute_query_fault first_or_zero_def Let_def)

lemma status_no_fault:
  assumes "get_monthly_budget fault0 s = (Some b, s1)" and "b \<noteq> 0"
  shows "\<exists>r. fst (get_budget_status fault0 None today s) = Inr r"
proof -
  obtain pct where
    "percentage_of (sql_sum (map amount
       (filter (between (strftime (today\<lparr>day := 1\<rparr>)) (strftime today))
          (expenses_tbl (db s1))))) b = Inr pct"
    using percentage_of_returns by blast
  then show ?thesis
    using assms(2)
    by (simp add: get_budget_status_def assms(1) execute_query_ok select_sum_between_def
        first_or_zero_sum Let_def)
qed

text \<open>
  C9. \<open>get_expense_summary\<close> and \<open>get_budget_status\<close> index row 0 of the result of
  their SUM query. That result is the empty sequence exactly when the backend fails on the
  query (a SUM without GROUP BY always yields one row); then both raise \<open>IndexError\<close>,
  and otherwise both return a result. For \<open>get_budget_status\<close> this concerns the branch
  with a stored budget other than 0, the only one that issues the query.
\<close>

theorem aggregate_needs_a_row:
  assumes "valid_date today"
  shows "(fst (execute_query fault1 (total_query sd ed) s) = [] \<longleftrightarrow> fault1 \<noteq> None) \<and>
         (fst (execute_query fault1 (select_sum_between lo hi) s) = [] \<longleftrightarrow> fault1 \<noteq> None) \<and>
         (fault1 \<noteq> None \<longrightarrow>
            fst (get_expense_summary fault1 fault2 today p s) = Inl IndexError) \<and>
         (fault1 = None \<longrightarrow>
            (\<exists>r. fst (get_expense_summary fault1 fault2 today p s) = Inr r)) \<and>
         (fst (get_monthly_budget fault0 s) = Some b \<and> b \<noteq> 0 \<longrightarrow>
            (fault1 \<noteq> None \<longrightarrow>
               fst (get_budget_status fault0 fault1 today s) = Inl IndexError) \<and>
            (fault1 = None \<longrightarrow>
               (\<exists>r. fst (get_budget_status fault0 fault1 today s) = Inr r)))"
proof -
  obtain sd' ed' where w: "period_window today p = Inr (sd', ed')"
    using period_window_ok [OF assms] by blast
  have a: "fst (execute_query fault1 (total_query sd ed) s) = [] \<longleftrightarrow> fault1 \<noteq> None"
    by (rule total_query_fault_iff)
  have a': "fst (execute_query fault1 (select_sum_between lo hi) s) = [] \<longleftrightarrow> fault1 \<noteq> None"
    by (rule sum_between_fault_iff)
  have b: "fault1 \<noteq> None \<longrightarrow>
      fst (get_expense_summary fault1 fault2 today p s) = Inl IndexError"
    using summary_fault [OF w] by (cases fault1) simp_all
  have c: "fault1 = None \<longrightarrow>
      (\<exists>r. fst (get_expense_summary fault1 fault2 today p s) = Inr r)"
    using summary_no_fault [OF w] by simp
  have d: "fst (get_monthly_budget fault0 s) = Some b \<and> b \<noteq> 0 \<longrightarrow>
            (fault1 \<noteq> None \<longrightarrow>
               fst (get_budget_status fault0 fault1 today s) = Inl IndexError) \<and>
            (fault1 = None \<longrightarrow>
               (\<exists>r. fst (get_budget_status fault0 fault1 today s) = Inr r))"
  proof (intro impI, elim conjE)
    assume g: "fst (get_monthly_budget fault0 s) = Some b" and nz: "b \<noteq> 0"
    obtain s1 where g1: "get_monthly_budget fault0 s = (Some b, s1)"
      using g by (cases "get_monthly_budget fault0 s") simp
    show "(fault1 \<noteq> None \<longrightarrow>
               fst (get_budget_status fault0 fault1 today s) = Inl IndexError) \<and>
            (fault1 = None \<longrightarrow>
               (\<exists>r. fst (get_budget_status fault0 fault1 today s) = Inr r))"
      using status_fault [OF g1 nz] status_no_fault [OF g1 nz] by (cases fault1) simp_all
  qed
  from a a' b c d show ?thesis by (intro conjI)
qed

theorem aggregate_needs_a_row_witness:
  "valid_date \<lparr>year = 2026, month = 11, day = 4\<rparr> \<and>
   fst (get_expense_summary (Some (OperationalError ''database is locked'')) None
          \<lparr>year = 2026, month = 11, day = 4\<rparr> ''monthly'' spent_80) = Inl IndexError \<and>
   fst (get_monthly_budget None spent_80) = Some 100 \<and>
   fst (get_budget_status None (Some (OperationalError ''database is locked''))
          \<lparr>year = 2026, month = 11, day = 4\<rparr> spent_80) = Inl IndexError"
proof -
  have b80: "fst (get_monthly_budget None spent_80) = Some 100"
    by (simp add: get_monthly_budget_def execute_query_ok select_monthly_budget_def
        spent_80_tables)
  show ?thesis
    using valid_2026_11_04 b80
      aggregate_needs_a_row [OF valid_2026_11_04, of
        "Some (OperationalError ''database is locked'')" None None spent_80 "[]" "[]"
        None "''monthly''" None 100]
    by simp
qed

section \<open>The category registry\<close>

lemma init_database_tables:
  "db (init_database None new_file) =
     \<lparr>expenses_tbl = [], budget_tbl = [], categories_tbl = default_categories\<rparr>"
  by (simp add: init_database_def run_update_def seed_categories_def
      insert_or_ignore_category_def default_categories_def new_file_def)

lemma count_list_distinct: "distinct xs \<Longrightarrow> x \<in> set xs \<Longrightarrow> count_list xs x = 1"
  by (induction xs) auto

lemma count_list_sort: "count_list (sort xs) x = count_list xs x"
proof -
  have "count (mset (sort xs)) x = count (mset xs) x" by simp
  then show ?thesis by (simp only: count_mset)
qed

lemma add_category_present:
  assumes "name \<in> set (categories_tbl (db s))"
  shows "\<not> fst (add_category fault name s)" and "db (snd (add_category fault name s)) = db s"
  using assms
  by (cases fault; simp add: add_category_def execute_update_def run_update_def
      insert_category_def print_line_def)+

lemma add_category_keeps_unique:
  "distinct (categories_tbl (db s)) \<Longrightarrow>
   distinct (categories_tbl (db (snd (add_category fault name s))))"
  by (cases fault; simp add: add_category_def execute_update_def run_update_def
      insert_category_def print_line_def)

lemma init_database_unique: "distinct (categories_tbl (db (init_database None new_file)))"
  by (simp add: init_database_tables default_categories_def)

text \<open>
  C6. When the name is in the registry (whose names are distinct, as the UNIQUE column
  keeps them), \<open>add_category\<close> returns false: the INSERT is sent to the store, whose
  constraint rejects it. Afterwards \<open>get_categories\<close> lists the name exactly once.
\<close>

theorem second_add_fails:
  assumes "name \<in> set (categories_tbl (db s))" and "distinct (categories_tbl (db s))"
  shows "fst (add_category fault name s) = False \<and>
         run_update None (insert_category name) (db s) =
           Inl (IntegrityError ''UNIQUE constraint failed: categories.name'') \<and>
         count_list (fst (get_categories None (snd (add_category fault name s)))) name = 1"
proof -
  have a: "fst (add_category fault name s) = False"
    using add_category_present(1) [OF assms(1)] by simp
  have b: "run_update None (insert_category name) (db s) =
           Inl (IntegrityError ''UNIQUE constraint failed: categories.name'')"
    using assms(1) by (simp add: run_update_def insert_category_def)
  have "fst (get_categories None (snd (add_category fault name s))) =
        sort (categories_tbl (db s))"
    by (simp add: get_categories_def execute_query_ok select_category_names_def
        add_category_present(2) [OF assms(1)])
  then have c: "count_list (fst (get_categories None (snd (add_category fault name s)))) name = 1"
    using assms by (simp add: count_list_sort count_list_distinct)
  from a b c show ?thesis by (intro conjI)
qed

theorem second_add_fails_witness:
  "''Shopping'' \<in> set (categories_tbl (db (init_database None new_file))) \<and>
   distinct (categories_tbl (db (init_database None new_file))) \<and>
   fst (add_category None ''Shopping'' (init_database None new_file)) = False \<and>
   count_list (fst (get_categories None
        (snd (add_category None ''Shopping'' (init_database None new_file))))) ''Shopping'' = 1"
proof -
  have m: "''Shopping'' \<in> set (categories_tbl (db (init_database None new_file)))"
    by (simp add: init_database_tables default_categories_def)
  show ?thesis
    using m init_database_unique second_add_fails [OF m init_database_unique, of None]
    by simp
qed

text \<open>
  C7, as the code has it. Adding a name that is in the registry leaves the tables as they
  were, but it is reported as a failure: \<open>add_category\<close> returns false and the store
  prints the error of the UNIQUE constraint.
\<close>

theorem duplicate_add_reports_failure:
  assumes "name \<in> set (categories_tbl (db s))"
  shows "db (snd (add_category fault name s)) = db s \<and>
         add_category None name s =
           (False, s\<lparr>printed := printed s @
              [''Database update error: UNIQUE constraint failed: categories.name'']\<rparr>)"
  using assms add_category_present(2) [OF assms, of fault]
  by (simp add: add_category_def execute_update_def run_update_def insert_category_def
      print_line_def)

theorem duplicate_add_reports_failure_witness:
  "''Food'' \<in> set (categories_tbl (db (init_database None new_file))) \<and>
   db (snd (add_category None ''Food'' (init_database None new_file))) =
     db (init_database None new_file) \<and>
   add_category None ''Food'' (init_database None new_file) =
     (False, (init_database None new_file)\<lparr>printed := printed (init_database None new_file) @
        [''Database update error: UNIQUE constraint failed: categories.name'']\<rparr>)"
proof -
  have m: "''Food'' \<in> set (categories_tbl (db (init_database None new_file)))"
    by (simp add: init_database_tables default_categories_def)
  show ?thesis
    using m duplicate_add_reports_failure [OF m, of None] by simp
qed

theorem duplicate_add_counterexample:
  "''Food'' \<in> set (categories_tbl (db (init_database None new_file))) \<and>
   \<not> (fst (add_category None ''Food'' (init_database None new_file)) \<and>
      printed (snd (add_category None ''Food'' (init_database None new_file))) =
        printed (init_database None new_file))"
  by (simp add: add_category_def execute_update_def run_update_def insert_category_def
      print_line_def init_database_tables default_categories_def)

section \<open>The budget row\<close>

lemma singleton_budget_cases:
  "singleton_budget t \<longleftrightarrow> budget_tbl t = [] \<or> (\<exists>a. budget_tbl t = [(1, a)])"
proof (cases "budget_tbl t")
  case Nil
  then show ?thesis by (simp add: singleton_budget_def)
next
  case (Cons r rs)
  then show ?thesis by (cases r; cases rs) (auto simp add: singleton_budget_def)
qed

lemma execute_query_db: "db (snd (execute_query fault q s)) = db s"
  by (cases fault; cases "q (db s)")
    (simp_all add: execute_query_def run_select_def print_line_def)

lemma set_monthly_budget_keeps_singleton:
  assumes "singleton_budget (db s)"
  shows "singleton_budget (db (snd (set_monthly_budget fault1 fault2 a s)))"
proof -
  obtain found s1 where q: "execute_query fault1 select_budget_id s = (found, s1)"
    by (cases "execute_query fault1 select_budget_id s")
  have d: "db s1 = db s" using execute_query_db [of fault1 select_budget_id s] q by simp
  from assms consider "budget_tbl (db s) = []" | b where "budget_tbl (db s) = [(1, b)]"
    using singleton_budget_cases by blast
  then show ?thesis
  proof cases
    case 1
    then show ?thesis
      by (cases fault2; cases "found = []")
        (simp_all add: set_monthly_budget_def q d execute_update_def run_update_def
          update_budget_def insert_budget_def print_line_def singleton_budget_def)
  next
    case 2
    then show ?thesis
      by (cases fault2; cases "found = []")
        (simp_all add: set_monthly_budget_def q d execute_update_def run_update_def
          update_budget_def insert_budget_def print_line_def singleton_budget_def)
  qed
qed

lemma set_budgets_keeps_singleton:
  "singleton_budget (db s) \<Longrightarrow> singleton_budget (db (set_budgets calls s))"
proof (induction calls arbitrary: s)
  case Nil
  then show ?case by simp
next
  case (Cons c calls)
  obtain fault1 fault2 a where c: "c = (fault1, fault2, a)" by (cases c)
  show ?case
    using Cons.IH [OF set_monthly_budget_keeps_singleton [OF Cons.prems, of fault1 fault2 a]]
    by (simp add: c)
qed

lemma init_database_singleton: "singleton_budget (db (init_database fault new_file))"
  by (cases fault)
    (simp_all add: init_database_def run_update_def seed_categories_def print_line_def
      insert_or_ignore_category_def default_categories_def new_file_def singleton_budget_def)

lemma set_monthly_budget_sets:
  assumes "singleton_budget (db s)"
  shows "budget_tbl (db (snd (set_monthly_budget None None a s))) = [(1, a)]"
proof -
  from assms consider "budget_tbl (db s) = []" | b where "budget_tbl (db s) = [(1, b)]"
    using singleton_budget_cases by blast
  then show ?thesis
    by cases
      (simp_all add: set_monthly_budget_def execute_query_ok select_budget_id_def
        execute_update_def run_update_def update_budget_def insert_budget_def)
qed

text \<open>
  C4. From a new database, after any sequence of \<open>set_monthly_budget\<close> calls, whatever the
  backend does on each of them, the budget table holds at most one row. After two further
  calls that the backend carries out, the table holds exactly the one row with the amount
  of the second call, and \<open>get_monthly_budget\<close> returns that amount.
\<close>

theorem budget_is_singleton:
  "length (budget_tbl (db (set_budgets calls (init_database fault new_file)))) \<le> 1 \<and>
   budget_tbl (db (snd (set_monthly_budget None None b2 (snd (set_monthly_budget None None b1
     (set_budgets calls (init_database fault new_file))))))) = [(1, b2)] \<and>
   fst (get_monthly_budget None (snd (set_monthly_budget None None b2
     (snd (set_monthly_budget None None b1
       (set_budgets calls (init_database fault new_file))))))) = Some b2"
proof -
  let ?s = "set_budgets calls (init_database fault new_file)"
  let ?s1 = "snd (set_monthly_budget None None b1 ?s)"
  let ?s2 = "snd (set_monthly_budget None None b2 ?s1)"
  have i: "singleton_budget (db ?s)"
    by (rule set_budgets_keeps_singleton [OF init_database_singleton])
  then have a: "length (budget_tbl (db ?s)) \<le> 1" by (simp add: singleton_budget_def)
  have i1: "singleton_budget (db ?s1)"
    by (rule set_monthly_budget_keeps_singleton [OF i])
  have b: "budget_tbl (db ?s2) = [(1, b2)]"
    by (rule set_monthly_budget_sets [OF i1])
  have c: "fst (get_monthly_budget None ?s2) = Some b2"
    by (simp add: get_monthly_budget_def execute_query_ok select_monthly_budget_def b)
  from a b c show ?thesis by (intro conjI)
qed

section \<open>Recording and querying an expense\<close>

lemma mset_order_desc: "mset (order_desc key rows) = mset rows"
  by (simp add: order_desc_def)

lemma get_expenses_all:
  "fst (get_expenses None None None None None None None s) =
     map row_of (order_desc date (expenses_tbl (db s)))"
  by (simp add: get_expenses_def given_def execute_query_ok select_expenses_def)

lemma add_expense_ok:
  "add_expense None d c a descr s =
     (True, s\<lparr>db := (db s)\<lparr>expenses_tbl := expenses_tbl (db s) @
        [\<lparr>row_id = next_row_id (expenses_tbl (db s)), date = d, category = c,
          amount = a, description = descr\<rparr>]\<rparr>\<rparr>)"
  by (simp add: add_expense_def execute_update_def run_update_def insert_expense_def)

lemma mset_rows_after_add:
  "mset (fst (get_expenses None None None None None None None
            (snd (add_expense None d c a descr s)))) =
   mset (fst (get_expenses None None None None None None None s)) +
     {#(next_row_id (expenses_tbl (db s)), d, c, a, descr)#}"
  by (simp add: get_expenses_all add_expense_ok mset_order_desc row_of_def)

lemma length_filter_mset: "length (filter P xs) = size (filter_mset P (mset xs))"
  by (induction xs) auto

text \<open>
  C1, as the code has it. \<open>add_expense\<close> followed by \<open>get_expenses\<close> without filters
  returns the rows there were before and one more: the new key with date, category,
  amount and description as they were passed. The rows that carry these four fields
  are therefore one more than before the call: exactly one when the ledger held no
  expense with the same four fields, and more when it did. (The store works in both
  calls.)
\<close>

theorem record_then_query:
  "fst (add_expense None d c a descr s) = True \<and>
   mset (fst (get_expenses None None None None None None None
            (snd (add_expense None d c a descr s)))) =
     mset (fst (get_expenses None None None None None None None s)) +
       {#(next_row_id (expenses_tbl (db s)), d, c, a, descr)#} \<and>
   length (filter (same_fields d c a descr)
            (fst (get_expenses None None None None None None None
               (snd (add_expense None d c a descr s))))) =
     Suc (length (filter (same_fields d c a descr)
            (fst (get_expenses None None None None None None None s))))"
proof -
  have a: "fst (add_expense None d c a descr s) = True"
    by (simp add: add_expense_ok)
  have c: "length (filter (same_fields d c a descr)
            (fst (get_expenses None None None None None None None
               (snd (add_expense None d c a descr s))))) =
     Suc (length (filter (same_fields d c a descr)
            (fst (get_expenses None None None None None None None s))))"
    by (simp only: length_filter_mset mset_rows_after_add) (simp add: same_fields_def)
  from a mset_rows_after_add [of d c a descr s] c show ?thesis by (intro conjI)
qed

theorem record_then_query_counterexample:
  "length (filter (same_fields ''2026-11-04'' ''Food'' 4 ''coffee'')
     (fst (get_expenses None None None None None None None coffee_twice))) = 2"
proof -
  have "length (filter (same_fields ''2026-11-04'' ''Food'' 4 ''coffee'')
     (fst (get_expenses None None None None None None None (init_database None new_file)))) = 0"
    by (simp add: get_expenses_all init_database_tables order_desc_def)
  then show ?thesis
    unfolding coffee_twice_def
    by (simp only: length_filter_mset mset_rows_after_add) (simp add: same_fields_def)
qed

section \<open>Stepping back through the calendar\<close>









section \<open>The summary of a period\<close>



















end
